theory Spec2Isabelle
  imports Complex_Main "HOL-Library.Product_Lexorder"
begin

section \<open>Sparse matrices as the notebook uses them\<close>

text \<open>
  The notebook \<^verbatim>\<open>demo-recommender.ipynb\<close> keeps its interaction data in
  \<^verbatim>\<open>scipy.sparse.csr_matrix\<close> objects. Of such an object the development needs the
  shape and the stored cells: a cell that is stored may hold the value 0 (an explicit
  zero), a cell that is not stored reads as 0. Signals are \<^verbatim>\<open>float\<close> in the notebook
  and real numbers here, so rounding is not modelled.
\<close>

text \<open>
  The failures: the two \<^verbatim>\<open>ValueError\<close>s of the matrix constructor, the
  \<^verbatim>\<open>IndexError\<close> of row indexing, and the two query errors that the specification
  names.
\<close>

datatype error =
    CannotInferDimensions
  | NegativeIndex
  | IndexError
  | UnknownItemError
  | UnknownUserError

record sparse_matrix =
  shape :: "nat \<times> nat"
  stored :: "nat \<times> nat \<rightharpoonup> real"

text \<open>\<^verbatim>\<open>M[r, c]\<close>: the stored value, 0 where nothing is stored.\<close>

definition entry :: "sparse_matrix \<Rightarrow> nat \<Rightarrow> nat \<Rightarrow> real" where
  "entry M r c = (case stored M (r, c) of None \<Rightarrow> 0 | Some v \<Rightarrow> v)"

text \<open>
  \<^verbatim>\<open>csr_matrix((data, (row, col)))\<close> takes three parallel arrays, here a list of
  triples \<open>(v, r, c)\<close>. Entries that name the same cell are added up, in the order of
  the input.
\<close>

type_synonym coo = "real \<times> int \<times> int"

definition add_entry :: "(nat \<times> nat \<rightharpoonup> real) \<Rightarrow> coo \<Rightarrow> (nat \<times> nat \<rightharpoonup> real)" where
  "add_entry m e =
     (case e of (v, r, c) \<Rightarrow>
        m((nat r, nat c) \<mapsto> (case m (nat r, nat c) of None \<Rightarrow> v | Some w \<Rightarrow> w + v)))"

fun sum_duplicates :: "coo list \<Rightarrow> (nat \<times> nat \<rightharpoonup> real) \<Rightarrow> (nat \<times> nat \<rightharpoonup> real)" where
  "sum_duplicates [] m = m"
| "sum_duplicates (e # es) m = sum_duplicates es (add_entry m e)"

text \<open>
  The constructor is called without a \<^verbatim>\<open>shape\<close> argument, so the shape is read off
  the largest indices; with empty index arrays scipy raises
  \<^verbatim>\<open>ValueError('cannot infer dimensions from zero sized index arrays')\<close>, and with a
  negative index \<^verbatim>\<open>ValueError('negative row index found')\<close> (or \<^verbatim>\<open>column\<close>).
\<close>

definition csr_matrix :: "coo list \<Rightarrow> error + sparse_matrix" where
  "csr_matrix es =
     (if es = [] then Inl CannotInferDimensions
      else if list_ex (\<lambda>(v, r, c). r < 0 \<or> c < 0) es then Inl NegativeIndex
      else Inr \<lparr> shape = (nat (Max (set (map (\<lambda>(v, r, c). r) es)) + 1),
                           nat (Max (set (map (\<lambda>(v, r, c). c) es)) + 1)),
                 stored = sum_duplicates es Map.empty \<rparr>)"

section \<open>Cell 2: loading and preparing the data\<close>

text \<open>
  A row of \<^verbatim>\<open>raw_data\<close> has the columns \<^verbatim>\<open>['user', 'news', 'read']\<close>; a missing
  value (NaN) is \<open>None\<close>.
\<close>

type_synonym ('u, 'n) raw_row = "'u option \<times> 'n option \<times> real option"

text \<open>\<^verbatim>\<open>data = raw_data.dropna()\<close>: the rows without a missing value.\<close>

fun dropna :: "('u, 'n) raw_row list \<Rightarrow> ('u \<times> 'n \<times> real) list" where
  "dropna [] = []"
| "dropna ((Some u, Some n, Some r) # rows) = (u, n, r) # dropna rows"
| "dropna (_ # rows) = dropna rows"

text \<open>
  \<^verbatim>\<open>data['user'].astype("category")\<close> and \<^verbatim>\<open>data['user'].cat.codes\<close>: the
  categories of a column are its distinct values in ascending order, the code of a value
  is its position among them, and \<open>-1\<close> is the code of a value that is no category
  (pandas uses it for NaN).
\<close>

definition categories :: "'a::linorder list \<Rightarrow> 'a list" where
  "categories xs = sort (remdups xs)"

fun code_of :: "'a list \<Rightarrow> 'a \<Rightarrow> int" where
  "code_of [] x = - 1"
| "code_of (c # cs) x =
     (if x = c then 0 else (let k = code_of cs x in if k < 0 then - 1 else k + 1))"

text \<open>A row of \<^verbatim>\<open>data\<close> once the two id columns have been added.\<close>

record ('u, 'n) row =
  user :: 'u
  news :: 'n
  read :: real
  user_id :: int
  news_id :: int

definition prepare :: "('u::linorder, 'n::linorder) raw_row list \<Rightarrow> ('u, 'n) row list" where
  "prepare raw_data =
     (let data = dropna raw_data;
          users = map (\<lambda>(u, n, r). u) data;
          newss = map (\<lambda>(u, n, r). n) data
      in map (\<lambda>(u, n, r). \<lparr> user = u, news = n, read = r,
                              user_id = code_of (categories users) u,
                              news_id = code_of (categories newss) n \<rparr>) data)"

text \<open>
  The variables that cell 2 leaves behind. Both matrices are built from the same three
  columns of \<^verbatim>\<open>data\<close>, with the two index columns in either order.
\<close>

record workspace =
  sparse_item_user :: sparse_matrix
  sparse_user_item :: sparse_matrix

definition build_matrices :: "('u, 'n) row list \<Rightarrow> error + workspace" where
  "build_matrices data =
     (case csr_matrix (map (\<lambda>d. (read d, news_id d, user_id d)) data) of
        Inl e \<Rightarrow> Inl e
      | Inr iu \<Rightarrow>
          (case csr_matrix (map (\<lambda>d. (read d, user_id d, news_id d)) data) of
             Inl e \<Rightarrow> Inl e
           | Inr ui \<Rightarrow> Inr \<lparr> sparse_item_user = iu, sparse_user_item = ui \<rparr>))"

definition cell2 :: "('u::linorder, 'n::linorder) raw_row list \<Rightarrow> error + workspace" where
  "cell2 raw_data = build_matrices (prepare raw_data)"

section \<open>Cell 4: the confidence matrix\<close>

text \<open>
  \<^verbatim>\<open>alpha_val = 40\<close> and
  \<^verbatim>\<open>data_conf = (sparse_item_user * alpha_val).astype('double')\<close>.
  Multiplying a sparse matrix by a scalar gives a new matrix whose stored values are the
  old ones times the scalar; the operand is not touched. The values are doubles already,
  so \<^verbatim>\<open>astype('double')\<close> changes nothing. The cell then trains on this matrix,
  \<^verbatim>\<open>model.fit(data_conf)\<close>.
\<close>

definition alpha_val :: real where
  "alpha_val = 40"

definition mul_scalar :: "sparse_matrix \<Rightarrow> real \<Rightarrow> sparse_matrix" where
  "mul_scalar M a = \<lparr> shape = shape M, stored = (\<lambda>k. map_option (\<lambda>v. v * a) (stored M k)) \<rparr>"

definition astype_double :: "sparse_matrix \<Rightarrow> sparse_matrix" where
  "astype_double M = M"

text \<open>The variables after cell 4: those of cell 2, and \<^verbatim>\<open>data_conf\<close>.\<close>

record fitted = workspace +
  data_conf :: sparse_matrix

definition cell4 :: "workspace \<Rightarrow> fitted" where
  "cell4 w =
     \<lparr> sparse_item_user = sparse_item_user w,
       sparse_user_item = sparse_user_item w,
       data_conf = astype_double (mul_scalar (sparse_item_user w) alpha_val) \<rparr>"

section \<open>Cell 6: the reading history of a user\<close>

text \<open>
  \<^verbatim>\<open>consumed_idx = sparse_user_item[user_id,:].nonzero()[1]\<close>: the columns of the
  row that hold a value other than 0, in ascending order. A row index beyond the shape
  raises \<^verbatim>\<open>IndexError\<close>. The conversion to strings, \<^verbatim>\<open>.astype(str)\<close>, is for
  printing and is left out.
\<close>

definition nonzero_cols :: "sparse_matrix \<Rightarrow> nat \<Rightarrow> nat list" where
  "nonzero_cols M r = filter (\<lambda>c. entry M r c \<noteq> 0) [0..<snd (shape M)]"

definition consumed_idx :: "sparse_matrix \<Rightarrow> nat \<Rightarrow> error + nat list" where
  "consumed_idx M uid =
     (if uid < fst (shape M) then Inr (nonzero_cols M uid) else Inl IndexError)"

text \<open>\<^verbatim>\<open>M.T\<close>, used to read a user's items off an item-by-user matrix.\<close>

definition transpose_matrix :: "sparse_matrix \<Rightarrow> sparse_matrix" where
  "transpose_matrix M =
     \<lparr> shape = (snd (shape M), fst (shape M)), stored = (\<lambda>(r, c). stored M (c, r)) \<rparr>"

section \<open>The query engine\<close>

text \<open>
  The trained model is the pair of factor matrices that \<^verbatim>\<open>model.fit\<close> leaves in the
  model object: one vector per user and one per item. Training itself is a numerical
  routine of the \<^verbatim>\<open>implicit\<close> package and is not modelled; the theorems below hold for
  every pair of factor matrices.
\<close>

type_synonym vec = "real list"

record als_model =
  user_factors :: "vec list"
  item_factors :: "vec list"

text \<open>
  Modelled from the spec: the dot product of two factor vectors, \<open>X[user_id] \<cdot> Y[i]\<close>
  in section 4.4. The scoring code is in the \<^verbatim>\<open>implicit\<close> package, not in the repository.
\<close>

definition dot :: "vec \<Rightarrow> vec \<Rightarrow> real" where
  "dot a b = sum_list (map2 (*) a b)"

text \<open>
  Modelled from the spec: the length of a vector, by which \<open>normalize\<close> divides
  (glossary: normalizing to unit length). The code is in the \<^verbatim>\<open>implicit\<close> package.
\<close>

definition norm_vec :: "vec \<Rightarrow> real" where
  "norm_vec a = sqrt (dot a a)"

text \<open>
  Modelled from the spec: \<open>normalize\<close> of section 4.4, scaling a vector to unit length;
  the code is in the \<^verbatim>\<open>implicit\<close> package. The specification does not say what the
  normalisation of the zero vector is, which has no direction; here it is left as it is,
  so that its cosine with every vector is 0.
\<close>

definition normalize_vec :: "vec \<Rightarrow> vec" where
  "normalize_vec a = (if norm_vec a = 0 then a else map (\<lambda>x. x / norm_vec a) a)"

text \<open>
  Modelled from the spec: cosine similarity, the dot product of two vectors after
  normalizing each to unit length (glossary), \<open>normalize(Y[item_id]) \<cdot> normalize(Y[j])\<close>
  in section 4.4. The code is in the \<^verbatim>\<open>implicit\<close> package.
\<close>

definition cosine :: "vec \<Rightarrow> vec \<Rightarrow> real" where
  "cosine a b = dot (normalize_vec a) (normalize_vec b)"

text \<open>
  Modelled from the spec: the ranking of section 4.4, descending by score with ties
  broken by ascending item id; the sorting code is in the \<^verbatim>\<open>implicit\<close> package. A
  result is a list of \<open>(item_id, score)\<close> pairs, and a pair with the smaller key is
  ranked first.
\<close>

definition rank_key :: "nat \<times> real \<Rightarrow> real \<times> nat" where
  "rank_key p = (- snd p, fst p)"

text \<open>
  Modelled from the spec: "returns the k highest-scoring items in descending score
  order" (section 4.4); the code is in the \<^verbatim>\<open>implicit\<close> package. Fewer than \<open>k\<close>
  candidates are all returned.
\<close>

definition top_k :: "nat \<Rightarrow> (nat \<times> real) list \<Rightarrow> (nat \<times> real) list" where
  "top_k k cands = take k (sort_key rank_key cands)"

text \<open>
  Modelled from the spec: the scores of the items other than the query item. Section 4.4
  of the specification: "score every other item j by
  \<open>score(j) = normalize(Y[item_id]) \<cdot> normalize(Y[j])\<close>". The code is in the
  \<^verbatim>\<open>implicit\<close> package.
\<close>

definition other_scores :: "vec list \<Rightarrow> nat \<Rightarrow> (nat \<times> real) list" where
  "other_scores Y item_id =
     map (\<lambda>j. (j, cosine (Y ! item_id) (Y ! j))) (filter (\<lambda>j. j \<noteq> item_id) [0..<length Y])"

text \<open>
  Modelled from the spec: all the scored items of \<^verbatim>\<open>similar_items\<close>. Section 4.4 of
  the specification: "the query item itself is included with score 1.0", next to the
  other items with their cosine scores. The code is in the \<^verbatim>\<open>implicit\<close> package.
\<close>

definition similarity_scores :: "vec list \<Rightarrow> nat \<Rightarrow> (nat \<times> real) list" where
  "similarity_scores Y item_id = (item_id, 1) # other_scores Y item_id"

text \<open>
  Modelled from the spec: \<^verbatim>\<open>similar_items\<close> is a method of the model object of the
  \<^verbatim>\<open>implicit\<close> package; the notebook only calls it (cell 5) and its body is not in the
  repository. Section 4.4 of the specification: the other items are ranked, "the k
  highest-scoring items in descending score order, ties broken by ascending item_id";
  "the query item itself is included with score 1.0 as the top result"; a result has at
  most \<open>k\<close> elements (section 3); an item id outside the factor matrix fails with
  \<^verbatim>\<open>UnknownItemError\<close>.
\<close>

definition similar_items :: "vec list \<Rightarrow> nat \<Rightarrow> nat \<Rightarrow> error + (nat \<times> real) list" where
  "similar_items Y item_id k =
     (if item_id < length Y
      then Inr (take k ((item_id, 1) # top_k k (other_scores Y item_id)))
      else Inl UnknownItemError)"

text \<open>
  Modelled from the spec: the candidates of \<^verbatim>\<open>recommend\<close>. Section 4.4 of the
  specification: items already present (non-zero) in the user's row of the interaction
  matrix are excluded from the candidates. The code is in the \<^verbatim>\<open>implicit\<close> package.
\<close>

definition candidates :: "vec list \<Rightarrow> sparse_matrix \<Rightarrow> nat \<Rightarrow> nat list" where
  "candidates Y M uid = filter (\<lambda>i. entry M uid i = 0) [0..<length Y]"

text \<open>
  Modelled from the spec: the scores that \<^verbatim>\<open>recommend\<close> ranks. Section 4.4 of the
  specification: a candidate \<open>i\<close> is scored by the raw dot product
  \<open>X[user_id] \<cdot> Y[i]\<close>, without normalisation. The code is in the \<^verbatim>\<open>implicit\<close>
  package.
\<close>

definition preference_scores :: "vec list \<Rightarrow> vec list \<Rightarrow> sparse_matrix \<Rightarrow> nat \<Rightarrow> (nat \<times> real) list" where
  "preference_scores X Y M uid =
     map (\<lambda>i. (i, dot (X ! uid) (Y ! i))) (candidates Y M uid)"

text \<open>
  Modelled from the spec: \<^verbatim>\<open>recommend\<close> is a method of the model object of the
  \<^verbatim>\<open>implicit\<close> package; the notebook only calls it (cell 6) and its body is not in the
  repository. Section 4.4 of the specification: the \<open>k\<close> highest-scoring candidates are
  returned in descending score order, ties broken by ascending item id; a user id outside
  the factor matrix fails with \<^verbatim>\<open>UnknownUserError\<close>.
\<close>

definition recommend :: "vec list \<Rightarrow> vec list \<Rightarrow> sparse_matrix \<Rightarrow> nat \<Rightarrow> nat \<Rightarrow> error + (nat \<times> real) list" where
  "recommend X Y M uid k =
     (if uid < length X then Inr (top_k k (preference_scores X Y M uid))
      else Inl UnknownUserError)"

text \<open>
  The two calls of the notebook: \<^verbatim>\<open>model.similar_items(item_id, n_similar)\<close> in cell 5
  and \<^verbatim>\<open>model.recommend(user_id, sparse_user_item)\<close> in cell 6, which asks for the
  default of 10 results and passes the user-by-item matrix of cell 2.
\<close>

definition cell5 :: "als_model \<Rightarrow> nat \<Rightarrow> nat \<Rightarrow> error + (nat \<times> real) list" where
  "cell5 model item_id n_similar = similar_items (item_factors model) item_id n_similar"

definition cell6 :: "als_model \<Rightarrow> fitted \<Rightarrow> nat \<Rightarrow> error + (nat \<times> real) list" where
  "cell6 model f uid =
     recommend (user_factors model) (item_factors model) (sparse_user_item f) uid 10"

section \<open>Notions used to state the properties\<close>

text \<open>The signals that the input gives for one cell, in input order.\<close>

definition cell_values :: "coo list \<Rightarrow> nat \<times> nat \<Rightarrow> real list" where
  "cell_values es k = map fst (filter (\<lambda>(v, r, c). (nat r, nat c) = k) es)"

text \<open>The signals that the rows of \<^verbatim>\<open>data\<close> give for a (user, item) pair.\<close>

definition signals :: "('u, 'n) row list \<Rightarrow> nat \<Rightarrow> nat \<Rightarrow> real list" where
  "signals data u i = map read (filter (\<lambda>d. user_id d = int u \<and> news_id d = int i) data)"


section \<open>Example inputs\<close>

text \<open>
  Three rows of \<^verbatim>\<open>data\<close>: user 0 has read item 1 twice (signals 1 and 2) and user 1
  has read item 0.
\<close>

definition example_data :: "(nat, nat) row list" where
  "example_data =
     [\<lparr>user = 70, news = 31, read = 1, user_id = 0, news_id = 1\<rparr>,
      \<lparr>user = 90, news = 20, read = 1, user_id = 1, news_id = 0\<rparr>,
      \<lparr>user = 70, news = 31, read = 2, user_id = 0, news_id = 1\<rparr>]"

text \<open>
  Two rows of \<^verbatim>\<open>raw_data\<close>: one with a negative user value and a negative signal, one
  whose signal is missing.
\<close>

definition example_raw :: "(int, int) raw_row list" where
  "example_raw = [(Some (- 5), Some 3, Some (- 1)), (Some 2, Some 3, None)]"

text \<open>Factors for two users and three items; items 0 and 1 have the same vector.\<close>

definition example_model :: als_model where
  "example_model = \<lparr> user_factors = [[1, 0], [0, 1]], item_factors = [[1, 0], [1, 0], [0, 2]] \<rparr>"

section \<open>The interaction matrices\<close>

lemma cell_values_Nil [simp]: "cell_values [] k = []"
  by (simp add: cell_values_def)

lemma cell_values_Cons:
  "cell_values ((v, r, c) # es) k =
     (if (nat r, nat c) = k then v # cell_values es k else cell_values es k)"
  by (simp add: cell_values_def)

lemma sum_duplicates_eq:
  "sum_duplicates es m k =
     (if cell_values es k = [] then m k
      else Some ((case m k of None \<Rightarrow> 0 | Some w \<Rightarrow> w) + sum_list (cell_values es k)))"
proof (induction es arbitrary: m)
  case Nil
  show ?case by simp
next
  case (Cons e es)
  obtain v r c where e: "e = (v, r, c)" by (cases e)
  show ?case
    unfolding e sum_duplicates.simps Cons.IH cell_values_Cons
    by (simp add: add_entry_def split: option.splits)
qed

lemma stored_csr_matrix:
  assumes "csr_matrix es = Inr M"
  shows "stored M k = (if cell_values es k = [] then None else Some (sum_list (cell_values es k)))"
proof -
  from assms have "stored M = sum_duplicates es Map.empty"
    by (auto simp: csr_matrix_def split: if_splits)
  then show ?thesis by (simp add: sum_duplicates_eq)
qed

lemma csr_matrix_nonneg:
  assumes "csr_matrix es = Inr M" and "(v, r, c) \<in> set es"
  shows "0 \<le> r \<and> 0 \<le> c"
proof -
  from assms(1) have "\<not> list_ex (\<lambda>(v, r, c). r < 0 \<or> c < 0) es"
    by (auto simp: csr_matrix_def split: if_splits)
  with assms(2) show ?thesis by (force simp: list_ex_iff)
qed

lemma csr_matrix_total:
  assumes "es \<noteq> []" and "\<forall>(v, r, c) \<in> set es. 0 \<le> r \<and> 0 \<le> c"
  shows "\<exists>M. csr_matrix es = Inr M"
proof -
  from assms(2) have "\<not> list_ex (\<lambda>(v, r, c). r < 0 \<or> c < 0) es"
    by (force simp: list_ex_iff)
  with assms(1) show ?thesis by (simp add: csr_matrix_def)
qed

lemma shape_csr_matrix:
  "csr_matrix es = Inr M \<Longrightarrow>
     shape M = (nat (Max (set (map (\<lambda>(v, r, c). r) es)) + 1),
                nat (Max (set (map (\<lambda>(v, r, c). c) es)) + 1))"
  by (auto simp: csr_matrix_def split: if_splits)

text \<open>Every stored cell of a constructed matrix lies within its shape.\<close>

lemma csr_matrix_in_shape:
  assumes "csr_matrix es = Inr M" and "stored M (r, c) \<noteq> None"
  shows "r < fst (shape M) \<and> c < snd (shape M)"
proof -
  from assms(2) have "cell_values es (r, c) \<noteq> []"
    by (simp add: stored_csr_matrix[OF assms(1)] split: if_splits)
  then obtain v r' c' where m: "(v, r', c') \<in> set es" and rc: "nat r' = r" "nat c' = c"
    by (auto simp: cell_values_def filter_empty_conv)
  from csr_matrix_nonneg[OF assms(1) m] have nn: "0 \<le> r'" "0 \<le> c'" by auto
  have "r' \<le> Max (set (map (\<lambda>(v, r, c). r) es))"
    using m by (intro Max_ge) force+
  moreover have "c' \<le> Max (set (map (\<lambda>(v, r, c). c) es))"
    using m by (intro Max_ge) force+
  ultimately show ?thesis
    using nn rc by (simp add: shape_csr_matrix[OF assms(1)]) linarith
qed

lemma cell_values_swap:
  "cell_values (map (\<lambda>d. (read d, user_id d, news_id d)) data) (u, i) =
   cell_values (map (\<lambda>d. (read d, news_id d, user_id d)) data) (i, u)"
  by (induction data) (auto simp: cell_values_def)

lemma build_matrices_Inr:
  assumes "build_matrices data = Inr w"
  shows "csr_matrix (map (\<lambda>d. (read d, news_id d, user_id d)) data) = Inr (sparse_item_user w)"
    and "csr_matrix (map (\<lambda>d. (read d, user_id d, news_id d)) data) = Inr (sparse_user_item w)"
  using assms by (auto simp: build_matrices_def split: sum.splits)

lemma build_matrices_nonneg:
  assumes "build_matrices data = Inr w" and "d \<in> set data"
  shows "0 \<le> user_id d \<and> 0 \<le> news_id d"
proof -
  from assms(2) have "(read d, user_id d, news_id d) \<in> set (map (\<lambda>d. (read d, user_id d, news_id d)) data)"
    by force
  from csr_matrix_nonneg[OF build_matrices_Inr(2)[OF assms(1)] this] show ?thesis .
qed

lemma cell_values_signals:
  assumes "\<forall>d \<in> set data. 0 \<le> user_id d \<and> 0 \<le> news_id d"
  shows "cell_values (map (\<lambda>d. (read d, user_id d, news_id d)) data) (u, i) = signals data u i"
  using assms
proof (induction data)
  case Nil
  show ?case by (simp add: signals_def)
next
  case (Cons d data)
  then have "0 \<le> user_id d" "0 \<le> news_id d" by auto
  then have "(nat (user_id d) = u \<and> nat (news_id d) = i) \<longleftrightarrow> (user_id d = int u \<and> news_id d = int i)"
    by auto
  with Cons show ?case by (simp add: cell_values_def signals_def)
qed

lemma map_swap_columns:
  "map (\<lambda>(v, r, c). r) (map (\<lambda>d. (read d, user_id d, news_id d)) data) =
   map (\<lambda>(v, r, c). c) (map (\<lambda>d. (read d, news_id d, user_id d)) data)"
  "map (\<lambda>(v, r, c). c) (map (\<lambda>d. (read d, user_id d, news_id d)) data) =
   map (\<lambda>(v, r, c). r) (map (\<lambda>d. (read d, news_id d, user_id d)) data)"
  by simp_all

lemma build_matrices_transpose:
  assumes "build_matrices data = Inr w"
  shows "sparse_user_item w = transpose_matrix (sparse_item_user w)"
proof -
  note iu = build_matrices_Inr(1)[OF assms] and ui = build_matrices_Inr(2)[OF assms]
  have st: "stored (sparse_user_item w) (u, i) = stored (sparse_item_user w) (i, u)" for u i
    by (simp add: stored_csr_matrix[OF iu] stored_csr_matrix[OF ui] cell_values_swap)
  have sh: "shape (sparse_user_item w) = (snd (shape (sparse_item_user w)), fst (shape (sparse_item_user w)))"
    unfolding shape_csr_matrix[OF iu] shape_csr_matrix[OF ui] map_swap_columns by simp
  have "stored (sparse_user_item w) = (\<lambda>(r, c). stored (sparse_item_user w) (c, r))"
    by (rule ext) (simp add: st split: prod.splits)
  with sh show ?thesis
    by (simp add: transpose_matrix_def)
qed

lemma entry_transpose [simp]: "entry (transpose_matrix M) r c = entry M c r"
  by (simp add: entry_def transpose_matrix_def)

lemma stored_user_item:
  assumes "build_matrices data = Inr w"
  shows "stored (sparse_user_item w) (u, i) =
           (if signals data u i = [] then None else Some (sum_list (signals data u i)))"
proof -
  have "\<forall>d \<in> set data. 0 \<le> user_id d \<and> 0 \<le> news_id d"
    using build_matrices_nonneg[OF assms] by blast
  then show ?thesis
    by (simp add: stored_csr_matrix[OF build_matrices_Inr(2)[OF assms]] cell_values_signals)
qed

lemma example_data_built: "build_matrices example_data = Inr (projr (build_matrices example_data))"
  by (simp add: example_data_def build_matrices_def csr_matrix_def)

text \<open>
  C5: whenever the builder returns its two matrices, the user-by-item matrix is the
  transpose of the item-by-user matrix (same stored cells, swapped shape), so
  \<open>user_item[u][i] = item_user[i][u]\<close> for all \<open>u\<close> and \<open>i\<close>.
\<close>

theorem transpose_views:
  assumes "build_matrices data = Inr w"
  shows "sparse_user_item w = transpose_matrix (sparse_item_user w) \<and>
         (\<forall>u i. entry (sparse_user_item w) u i = entry (sparse_item_user w) i u)"
  using build_matrices_transpose[OF assms] by simp

theorem transpose_views_witness:
  "\<not> isl (build_matrices example_data) \<and>
   sparse_user_item (projr (build_matrices example_data)) =
     transpose_matrix (sparse_item_user (projr (build_matrices example_data))) \<and>
   entry (sparse_user_item (projr (build_matrices example_data))) 0 1 = 3 \<and>
   entry (sparse_item_user (projr (build_matrices example_data))) 1 0 = 3"
proof -
  have a: "\<not> isl (build_matrices example_data)"
    by (simp add: example_data_def build_matrices_def csr_matrix_def)
  have b: "entry (sparse_user_item (projr (build_matrices example_data))) 0 1 = 3"
    by (simp add: example_data_def build_matrices_def csr_matrix_def entry_def add_entry_def)
  from transpose_views[OF example_data_built] a b show ?thesis by metis
qed

text \<open>
  C6: when the rows of \<^verbatim>\<open>data\<close> name a (user, item) pair, once or several times, the
  cell of that pair stores the sum of all the signals the rows give for the pair, in the
  user-by-item matrix and in the item-by-user matrix alike.
\<close>

theorem duplicates_summed:
  assumes "build_matrices data = Inr w" and "signals data u i \<noteq> []"
  shows "stored (sparse_user_item w) (u, i) = Some (sum_list (signals data u i)) \<and>
         stored (sparse_item_user w) (i, u) = Some (sum_list (signals data u i))"
proof -
  have "stored (sparse_user_item w) (u, i) = Some (sum_list (signals data u i))"
    using assms(2) by (simp add: stored_user_item[OF assms(1)])
  moreover have "stored (sparse_item_user w) (i, u) = stored (sparse_user_item w) (u, i)"
    by (simp add: build_matrices_transpose[OF assms(1)] transpose_matrix_def)
  ultimately show ?thesis by simp
qed

theorem duplicates_summed_witness:
  "signals example_data 0 1 = [1, 2] \<and>
   stored (sparse_user_item (projr (build_matrices example_data))) (0, 1) = Some 3 \<and>
   stored (sparse_item_user (projr (build_matrices example_data))) (1, 0) = Some 3"
proof -
  have s: "signals example_data 0 1 = [1, 2]"
    by (simp add: example_data_def signals_def)
  then have "signals example_data 0 1 \<noteq> []" by simp
  from duplicates_summed[OF example_data_built this] s show ?thesis by simp
qed

section \<open>The confidence transform\<close>

lemma stored_mul_scalar [simp]: "stored (mul_scalar M a) k = map_option (\<lambda>v. v * a) (stored M k)"
  by (simp add: mul_scalar_def)

lemma shape_mul_scalar [simp]: "shape (mul_scalar M a) = shape M"
  by (simp add: mul_scalar_def)

lemma entry_mul_scalar [simp]: "entry (mul_scalar M a) r c = entry M r c * a"
  by (simp add: entry_def split: option.splits)

lemma shape_transpose [simp]: "shape (transpose_matrix M) = (snd (shape M), fst (shape M))"
  by (simp add: transpose_matrix_def)

lemma data_conf_cell4: "data_conf (cell4 w) = mul_scalar (sparse_item_user w) alpha_val"
  by (simp add: cell4_def astype_double_def)

text \<open>
  C4: the confidence matrix \<^verbatim>\<open>data_conf\<close> has the shape of the interaction matrix and
  the same stored cells, each stored value is \<open>alpha_val\<close> times the value the
  interaction matrix stores there, \<open>alpha_val\<close> is positive, and the interaction matrix
  is the same after the cell as before.
\<close>

theorem confidence_transform:
  "shape (data_conf (cell4 w)) = shape (sparse_item_user w) \<and>
   dom (stored (data_conf (cell4 w))) = dom (stored (sparse_item_user w)) \<and>
   (\<forall>k v. stored (sparse_item_user w) k = Some v \<longrightarrow>
          stored (data_conf (cell4 w)) k = Some (alpha_val * v)) \<and>
   sparse_item_user (cell4 w) = sparse_item_user w \<and>
   0 < alpha_val"
proof -
  have "dom (stored (data_conf (cell4 w))) = dom (stored (sparse_item_user w))"
    by (auto simp: data_conf_cell4 dom_def)
  moreover have "sparse_item_user (cell4 w) = sparse_item_user w"
    by (simp add: cell4_def)
  ultimately show ?thesis
    by (simp add: data_conf_cell4 alpha_val_def)
qed

theorem confidence_transform_witness:
  "stored (sparse_item_user (projr (build_matrices example_data))) (1, 0) = Some 3 \<and>
   stored (data_conf (cell4 (projr (build_matrices example_data)))) (1, 0) = Some 120 \<and>
   shape (data_conf (cell4 (projr (build_matrices example_data)))) = (2, 2)"
proof -
  have a: "stored (sparse_item_user (projr (build_matrices example_data))) (1, 0) = Some 3"
    by (simp add: example_data_def build_matrices_def csr_matrix_def add_entry_def)
  have b: "shape (sparse_item_user (projr (build_matrices example_data))) = (2, 2)"
    by (simp add: example_data_def build_matrices_def csr_matrix_def)
  from confidence_transform[of "projr (build_matrices example_data)"] a b show ?thesis
    by (simp add: alpha_val_def)
qed

lemma nonzero_cols_cong:
  assumes "snd (shape M) = snd (shape N)" and "\<And>c. (entry M r c \<noteq> 0) = (entry N r c \<noteq> 0)"
  shows "nonzero_cols M r = nonzero_cols N r"
  using assms by (simp add: nonzero_cols_def)

text \<open>
  C10: only \<^verbatim>\<open>data_conf\<close>, the item-by-user matrix handed to training, is scaled by
  \<open>alpha_val\<close>; the user-by-item matrix that cell 6 passes to \<^verbatim>\<open>recommend\<close> is the
  raw one of cell 2. An entry of the raw matrix is non-zero exactly when the entry of the
  scaled matrix is, so the items read by a user are the same list whether they are read
  off the raw user-by-item matrix or off the transposed confidence matrix.
\<close>

theorem consumed_items_scaling:
  assumes "build_matrices data = Inr w"
  shows "data_conf (cell4 w) = astype_double (mul_scalar (sparse_item_user w) alpha_val) \<and>
         sparse_user_item (cell4 w) = sparse_user_item w \<and>
         cell6 model (cell4 w) u =
           recommend (user_factors model) (item_factors model) (sparse_user_item w) u 10 \<and>
         (\<forall>i. (entry (sparse_user_item w) u i \<noteq> 0) = (entry (data_conf (cell4 w)) i u \<noteq> 0)) \<and>
         consumed_idx (sparse_user_item (cell4 w)) u =
           consumed_idx (transpose_matrix (data_conf (cell4 w))) u"
proof -
  have t: "sparse_user_item w = transpose_matrix (sparse_item_user w)"
    by (rule build_matrices_transpose[OF assms])
  have e: "(entry (sparse_user_item w) u i \<noteq> 0) = (entry (data_conf (cell4 w)) i u \<noteq> 0)" for i
    by (simp add: t data_conf_cell4 alpha_val_def)
  have "nonzero_cols (sparse_user_item w) u = nonzero_cols (transpose_matrix (data_conf (cell4 w))) u"
    by (rule nonzero_cols_cong) (simp_all add: t data_conf_cell4 alpha_val_def)
  then have c: "consumed_idx (sparse_user_item (cell4 w)) u =
      consumed_idx (transpose_matrix (data_conf (cell4 w))) u"
    by (simp add: consumed_idx_def cell4_def t astype_double_def)
  show ?thesis using e c by (simp add: cell4_def cell6_def)
qed

theorem consumed_items_scaling_witness:
  "\<not> isl (build_matrices example_data) \<and>
   consumed_idx (sparse_user_item (cell4 (projr (build_matrices example_data)))) 0 = Inr [1] \<and>
   consumed_idx (transpose_matrix (data_conf (cell4 (projr (build_matrices example_data))))) 0 = Inr [1] \<and>
   entry (sparse_user_item (projr (build_matrices example_data))) 0 1 = 3 \<and>
   entry (data_conf (cell4 (projr (build_matrices example_data)))) 1 0 = 120"
proof -
  have a: "\<not> isl (build_matrices example_data)"
    by (simp add: example_data_def build_matrices_def csr_matrix_def)
  have b: "consumed_idx (sparse_user_item (cell4 (projr (build_matrices example_data)))) 0 = Inr [1]"
    by (simp add: example_data_def build_matrices_def csr_matrix_def add_entry_def cell4_def
        consumed_idx_def nonzero_cols_def entry_def upt_rec)
  have c: "entry (sparse_user_item (projr (build_matrices example_data))) 0 1 = 3"
    by (simp add: example_data_def build_matrices_def csr_matrix_def add_entry_def entry_def)
  have d: "entry (data_conf (cell4 (projr (build_matrices example_data)))) 1 0 = 120"
    by (simp add: example_data_def build_matrices_def csr_matrix_def add_entry_def
        data_conf_cell4 alpha_val_def entry_def)
  from consumed_items_scaling[OF example_data_built, of example_model 0] a b c d show ?thesis
    by simp
qed

section \<open>What cell 2 rejects\<close>

lemma code_of_nonneg: "x \<in> set cs \<Longrightarrow> 0 \<le> code_of cs x"
  by (induction cs) (auto simp: Let_def)

lemma set_categories [simp]: "set (categories xs) = set xs"
  by (simp add: categories_def)

lemma prepare_nonneg:
  assumes "d \<in> set (prepare raw_data)"
  shows "0 \<le> user_id d \<and> 0 \<le> news_id d"
proof -
  from assms obtain u n r where m: "(u, n, r) \<in> set (dropna raw_data)"
    and d: "d = \<lparr> user = u, news = n, read = r,
                 user_id = code_of (categories (map (\<lambda>(u, n, r). u) (dropna raw_data))) u,
                 news_id = code_of (categories (map (\<lambda>(u, n, r). n) (dropna raw_data))) n \<rparr>"
    by (auto simp: prepare_def Let_def)
  from m have "u \<in> set (categories (map (\<lambda>(u, n, r). u) (dropna raw_data)))"
    and "n \<in> set (categories (map (\<lambda>(u, n, r). n) (dropna raw_data)))"
    by force+
  then show ?thesis unfolding d by (simp add: code_of_nonneg)
qed

lemma prepare_columns:
  "map (\<lambda>d. (user d, news d, read d)) (prepare raw_data) = dropna raw_data"
  by (simp add: prepare_def Let_def comp_def case_prod_beta)

lemma prepare_Nil_iff: "prepare raw_data = [] \<longleftrightarrow> dropna raw_data = []"
  by (simp add: prepare_def Let_def)

lemma build_matrices_total:
  assumes "data \<noteq> []" and "\<forall>d \<in> set data. 0 \<le> user_id d \<and> 0 \<le> news_id d"
  shows "\<exists>w. build_matrices data = Inr w"
proof -
  have "\<exists>M. csr_matrix (map (\<lambda>d. (read d, news_id d, user_id d)) data) = Inr M"
    using assms by (intro csr_matrix_total) auto
  moreover have "\<exists>M. csr_matrix (map (\<lambda>d. (read d, user_id d, news_id d)) data) = Inr M"
    using assms by (intro csr_matrix_total) auto
  ultimately show ?thesis by (auto simp: build_matrices_def)
qed

lemma build_matrices_Nil: "build_matrices [] = Inl CannotInferDimensions"
  by (simp add: build_matrices_def csr_matrix_def)

lemma build_matrices_negative:
  assumes "d \<in> set data" and "user_id d < 0 \<or> news_id d < 0"
  shows "build_matrices data = Inl NegativeIndex"
proof -
  from assms(1) have ne: "data \<noteq> []" by auto
  have "list_ex (\<lambda>(v, r, c). r < 0 \<or> c < 0) (map (\<lambda>d. (read d, news_id d, user_id d)) data)"
    using assms by (force simp: list_ex_iff)
  with ne show ?thesis by (simp add: build_matrices_def csr_matrix_def)
qed

lemma entry_user_item:
  assumes "build_matrices data = Inr w"
  shows "entry (sparse_user_item w) u i = sum_list (signals data u i)"
  by (simp add: entry_def stored_user_item[OF assms])

lemma example_raw_prepared:
  "prepare example_raw = [\<lparr> user = - 5, news = 3, read = - 1, user_id = 0, news_id = 0 \<rparr>]"
  by (simp add: example_raw_def prepare_def categories_def)

theorem invalid_record_counterexample:
  "\<not> isl (cell2 example_raw) \<and>
   stored (sparse_user_item (projr (cell2 example_raw))) (0, 0) = Some (- 1) \<and>
   stored (sparse_item_user (projr (cell2 example_raw))) (0, 0) = Some (- 1)"
  by (simp add: cell2_def example_raw_prepared build_matrices_def csr_matrix_def add_entry_def)

text \<open>
  C7, as the notebook has it: cell 2 fails only when no row without a missing value is
  left, and then with the constructor's complaint that it cannot infer the dimensions.
  Otherwise both matrices are built from the rows that \<^verbatim>\<open>dropna\<close> keeps: a row with a
  missing value is left out, the signals are stored as they are, negative ones too, and
  the ids are category codes, which are never negative. The matrix constructor by itself
  does refuse a negative index.
\<close>

theorem cell2_failures:
  "(dropna raw_data = [] \<longrightarrow> cell2 raw_data = Inl CannotInferDimensions) \<and>
   (dropna raw_data \<noteq> [] \<longrightarrow>
      (\<exists>w. cell2 raw_data = Inr w \<and>
           (\<forall>u i. entry (sparse_user_item w) u i = sum_list (signals (prepare raw_data) u i)))) \<and>
   map (\<lambda>d. (user d, news d, read d)) (prepare raw_data) = dropna raw_data \<and>
   (\<forall>d \<in> set (prepare raw_data). 0 \<le> user_id d \<and> 0 \<le> news_id d) \<and>
   ((\<exists>d \<in> set data. user_id d < 0 \<or> news_id d < 0) \<longrightarrow>
      build_matrices data = Inl NegativeIndex)"
proof -
  have a: "dropna raw_data = [] \<longrightarrow> cell2 raw_data = Inl CannotInferDimensions"
    using prepare_Nil_iff[of raw_data] by (auto simp: cell2_def build_matrices_Nil)
  have b: "dropna raw_data \<noteq> [] \<longrightarrow>
      (\<exists>w. cell2 raw_data = Inr w \<and>
           (\<forall>u i. entry (sparse_user_item w) u i = sum_list (signals (prepare raw_data) u i)))"
  proof
    assume "dropna raw_data \<noteq> []"
    then have "prepare raw_data \<noteq> []" by (simp add: prepare_Nil_iff)
    then obtain w where w: "build_matrices (prepare raw_data) = Inr w"
      using build_matrices_total prepare_nonneg by blast
    then show "\<exists>w. cell2 raw_data = Inr w \<and>
           (\<forall>u i. entry (sparse_user_item w) u i = sum_list (signals (prepare raw_data) u i))"
      by (auto simp: cell2_def entry_user_item)
  qed
  have c: "\<forall>d \<in> set (prepare raw_data). 0 \<le> user_id d \<and> 0 \<le> news_id d"
    using prepare_nonneg by blast
  have d: "(\<exists>d \<in> set data. user_id d < 0 \<or> news_id d < 0) \<longrightarrow>
      build_matrices data = Inl NegativeIndex"
    using build_matrices_negative by blast
  from a b c d prepare_columns show ?thesis by blast
qed

theorem cell2_failures_witness:
  "dropna example_raw = [(- 5, 3, - 1)] \<and>
   \<not> isl (cell2 example_raw) \<and>
   entry (sparse_user_item (projr (cell2 example_raw))) 0 0 = - 1 \<and>
   dropna ([(None, Some 3, Some 1)] :: (int, int) raw_row list) = [] \<and>
   cell2 ([(None, Some 3, Some 1)] :: (int, int) raw_row list) = Inl CannotInferDimensions \<and>
   build_matrices [\<lparr> user = 2 :: int, news = 3 :: int, read = 1, user_id = - 1, news_id = 0 \<rparr>]
     = Inl NegativeIndex"
proof -
  have a: "dropna example_raw = [(- 5, 3, - 1)]"
    by (simp add: example_raw_def)
  have b: "dropna ([(None, Some 3, Some 1)] :: (int, int) raw_row list) = []"
    by simp
  have s: "signals (prepare example_raw) 0 0 = [- 1]"
    by (simp add: example_raw_prepared signals_def)
  from a have "dropna example_raw \<noteq> []" by simp
  with cell2_failures[of example_raw "[] :: (int, int) row list"]
  obtain w where w: "cell2 example_raw = Inr w"
    and ew: "\<forall>u i. entry (sparse_user_item w) u i = sum_list (signals (prepare example_raw) u i)"
    by blast
  have c: "\<not> isl (cell2 example_raw) \<and> entry (sparse_user_item (projr (cell2 example_raw))) 0 0 = - 1"
    using ew s by (simp add: w)
  from cell2_failures[of "[(None, Some 3, Some 1)] :: (int, int) raw_row list"
      "[] :: (int, int) row list"] b
  have d: "cell2 ([(None, Some 3, Some 1)] :: (int, int) raw_row list) = Inl CannotInferDimensions"
    by blast
  from cell2_failures[of example_raw
      "[\<lparr> user = 2 :: int, news = 3 :: int, read = 1, user_id = - 1, news_id = 0 \<rparr>]"]
  have e: "build_matrices [\<lparr> user = 2 :: int, news = 3 :: int, read = 1, user_id = - 1, news_id = 0 \<rparr>]
     = Inl NegativeIndex"
    by auto
  from a b c d e show ?thesis by blast
qed

section \<open>Ranking\<close>



lemma rank_key_le_score: "rank_key p \<le> rank_key q \<Longrightarrow> snd q \<le> snd p"
  by (cases p; cases q) (auto simp: rank_key_def)

lemma set_top_k: "set (top_k k xs) \<subseteq> set xs"
  using set_take_subset[of k "sort_key rank_key xs"] by (simp add: top_k_def)

lemma length_top_k: "length (top_k k xs) = min k (length xs)"
  by (simp add: top_k_def min.commute)

lemma top_k_all: "length xs \<le> k \<Longrightarrow> top_k k xs = sort_key rank_key xs"
  by (simp add: top_k_def)

lemma sorted_top_k: "sorted (map rank_key (top_k k xs))"
proof -
  have "sorted (map rank_key (sort_key rank_key xs))" by (rule sorted_sort_key)
  then have "sorted (take k (map rank_key (sort_key rank_key xs)))"
    by (rule sorted_wrt_take)
  then show ?thesis by (simp add: top_k_def take_map)
qed

lemma descending_top_k: "sorted_wrt (\<lambda>p q. snd q \<le> snd p) (top_k k xs)"
proof -
  have "sorted_wrt (\<lambda>p q. rank_key p \<le> rank_key q) (top_k k xs)"
    using sorted_top_k[of k xs] by (simp add: sorted_map)
  then show ?thesis
    by (rule sorted_wrt_mono_rel[rotated]) (simp add: rank_key_le_score)
qed




section \<open>Vectors and the cosine\<close>

lemma dot_simps [simp]:
  "dot [] b = 0" "dot a [] = 0" "dot (x # a) (y # b) = x * y + dot a b"
  by (simp_all add: dot_def)

lemma dot_commute: "dot a b = dot b a"
  by (induction a b rule: list_induct2') (simp_all)

lemma dot_self_nonneg: "0 \<le> dot a a"
  by (induction a) simp_all

lemma cs_step:
  fixes x y D A B :: real
  assumes "D\<^sup>2 \<le> A * B" and "0 \<le> A" and "0 \<le> B"
  shows "(x * y + D)\<^sup>2 \<le> (x * x + A) * (y * y + B)"
proof -
  have "(2 * x * y * D)\<^sup>2 = 4 * (x\<^sup>2 * y\<^sup>2) * D\<^sup>2"
    by (simp add: power2_eq_square)
  also have "\<dots> \<le> 4 * (x\<^sup>2 * y\<^sup>2) * (A * B)"
    by (intro mult_left_mono assms) simp
  also have "\<dots> \<le> (x\<^sup>2 * B + y\<^sup>2 * A)\<^sup>2"
  proof -
    have "0 \<le> (x\<^sup>2 * B - y\<^sup>2 * A)\<^sup>2" by simp
    then show ?thesis by (simp add: power2_eq_square algebra_simps)
  qed
  finally have "2 * x * y * D \<le> x\<^sup>2 * B + y\<^sup>2 * A"
    by (rule power2_le_imp_le) (simp add: assms)
  then show ?thesis using assms(1) by (simp add: power2_eq_square algebra_simps)
qed

lemma cauchy_schwarz_sq: "(dot a b)\<^sup>2 \<le> dot a a * dot b b"
proof (induction a b rule: list_induct2')
  case (4 x xs y ys)
  then show ?case by (simp add: cs_step dot_self_nonneg)
qed simp_all

lemma abs_dot_le: "\<bar>dot a b\<bar> \<le> norm_vec a * norm_vec b"
proof -
  have "\<bar>dot a b\<bar> = sqrt ((dot a b)\<^sup>2)" by simp
  also have "\<dots> \<le> sqrt (dot a a * dot b b)"
    using cauchy_schwarz_sq by (rule real_sqrt_le_mono)
  finally show ?thesis by (simp add: norm_vec_def real_sqrt_mult)
qed

lemma norm_vec_nonneg: "0 \<le> norm_vec a"
  by (simp add: norm_vec_def dot_self_nonneg)

lemma dot_zero_norm: "norm_vec a = 0 \<Longrightarrow> dot a b = 0"
  using abs_dot_le[of a b] by simp

lemma dot_scale: "dot (map (\<lambda>x. x / c) a) (map (\<lambda>y. y / d) b) = dot a b / (c * d)"
  by (induction a b rule: list_induct2') (simp_all add: add_divide_distrib)

lemma cosine_eq:
  "cosine a b = (if norm_vec a = 0 \<or> norm_vec b = 0 then 0 else dot a b / (norm_vec a * norm_vec b))"
proof (cases "norm_vec a = 0")
  case True
  then show ?thesis by (simp add: cosine_def normalize_vec_def dot_zero_norm)
next
  case a: False
  show ?thesis
  proof (cases "norm_vec b = 0")
    case True
    have "dot (normalize_vec a) b = dot b (normalize_vec a)" by (rule dot_commute)
    also have "\<dots> = 0" by (rule dot_zero_norm[OF True])
    finally show ?thesis using True by (simp add: cosine_def normalize_vec_def)
  next
    case False
    with a show ?thesis by (simp add: cosine_def normalize_vec_def dot_scale)
  qed
qed

lemma cosine_le_1: "cosine a b \<le> 1"
proof (cases "norm_vec a = 0 \<or> norm_vec b = 0")
  case True
  then show ?thesis by (simp add: cosine_eq)
next
  case False
  then have "0 < norm_vec a * norm_vec b"
    using norm_vec_nonneg[of a] norm_vec_nonneg[of b] by (simp add: less_le)
  moreover have "dot a b \<le> norm_vec a * norm_vec b"
    using abs_dot_le[of a b] by simp
  ultimately show ?thesis using False by (simp add: cosine_eq)
qed


section \<open>The two queries\<close>

lemma map_fst_other_scores [simp]:
  "map fst (other_scores Y x) = filter (\<lambda>j. j \<noteq> x) [0..<length Y]"
  by (simp add: other_scores_def comp_def)


lemma in_other_scores:
  "p \<in> set (other_scores Y x) \<longleftrightarrow>
     fst p < length Y \<and> fst p \<noteq> x \<and> snd p = cosine (Y ! x) (Y ! fst p)"
  by (cases p) (auto simp: other_scores_def)

lemma other_scores_le_1: "p \<in> set (other_scores Y x) \<Longrightarrow> snd p \<le> 1"
  by (simp add: in_other_scores cosine_le_1)

lemma length_other_scores:
  assumes "x < length Y"
  shows "length (other_scores Y x) = length Y - 1"
proof -
  let ?js = "filter (\<lambda>j. j \<noteq> x) [0..<length Y]"
  have "distinct ?js" by simp
  then have d: "card (set ?js) = length ?js" by (rule distinct_card)
  have s: "set ?js = {0..<length Y} - {x}" by auto
  have c: "card ({0..<length Y} - {x}) = length Y - 1" using assms by simp
  have "length (other_scores Y x) = length ?js" by (simp add: other_scores_def)
  with d s c show ?thesis by metis
qed

lemma set_similarity_scores:
  "set (similarity_scores Y x) = insert (x, 1) (set (other_scores Y x))"
  by (simp add: similarity_scores_def)

lemma similar_items_0:
  "x < length Y \<Longrightarrow> similar_items Y x 0 = Inr []"
  by (simp add: similar_items_def)

lemma similar_items_Suc:
  "x < length Y \<Longrightarrow> similar_items Y x (Suc n) = Inr ((x, 1) # top_k n (other_scores Y x))"
  by (simp add: similar_items_def top_k_def)

lemma map_fst_preference_scores [simp]:
  "map fst (preference_scores X Y M u) = candidates Y M u"
  by (simp add: preference_scores_def comp_def)

lemma distinct_candidates: "distinct (candidates Y M u)"
  by (simp add: candidates_def)

lemma distinct_preference_scores: "distinct (preference_scores X Y M u)"
  using distinct_map[of fst "preference_scores X Y M u"] by (simp add: distinct_candidates)

lemma in_preference_scores:
  "p \<in> set (preference_scores X Y M u) \<longleftrightarrow>
     fst p < length Y \<and> entry M u (fst p) = 0 \<and> snd p = dot (X ! u) (Y ! fst p)"
  by (cases p) (auto simp: preference_scores_def candidates_def)

lemma example_user_item_row0:
  "entry (sparse_user_item (projr (build_matrices example_data))) 0 i = (if i = 1 then 3 else 0)"
  by (simp add: example_data_def build_matrices_def csr_matrix_def add_entry_def entry_def)

lemma example_user_item_shape:
  "shape (sparse_user_item (projr (build_matrices example_data))) = (2, 2)"
  by (simp add: example_data_def build_matrices_def csr_matrix_def)

lemma example_recommend:
  "recommend (user_factors example_model) (item_factors example_model)
     (sparse_user_item (projr (build_matrices example_data))) 0 5 = Inr [(0, 1), (2, 0)]"
  by (simp add: example_model_def recommend_def preference_scores_def candidates_def top_k_def
      rank_key_def example_user_item_row0 upt_rec)

text \<open>
  C1: for a user id within the factor matrix \<^verbatim>\<open>recommend\<close> returns a result, and no
  item of the result has a non-zero entry in the user's row of the interaction matrix; in
  particular the result shares no item with the reading history \<^verbatim>\<open>consumed_idx\<close> that
  the notebook prints.
\<close>

theorem recommend_excludes_consumed:
  assumes "u < length X"
  shows "\<exists>res. recommend X Y M u k = Inr res \<and>
           (\<forall>(i, s) \<in> set res. entry M u i = 0) \<and>
           (\<forall>cs. consumed_idx M u = Inr cs \<longrightarrow> set cs \<inter> fst ` set res = {})"
proof -
  let ?res = "top_k k (preference_scores X Y M u)"
  have r: "recommend X Y M u k = Inr ?res"
    using assms by (simp add: recommend_def)
  have z: "entry M u (fst p) = 0" if "p \<in> set ?res" for p
    using that set_top_k[of k "preference_scores X Y M u"] in_preference_scores[of p X Y M u]
    by blast
  have "set cs \<inter> fst ` set ?res = {}" if "consumed_idx M u = Inr cs" for cs
  proof -
    from that have "cs = nonzero_cols M u"
      by (auto simp: consumed_idx_def split: if_splits)
    then have "\<forall>i \<in> set cs. entry M u i \<noteq> 0"
      by (simp add: nonzero_cols_def)
    with z show ?thesis by fastforce
  qed
  with r z show ?thesis by fastforce
qed

theorem recommend_excludes_consumed_witness:
  "(0::nat) < length (user_factors example_model) \<and>
   recommend (user_factors example_model) (item_factors example_model)
     (sparse_user_item (projr (build_matrices example_data))) 0 5 = Inr [(0, 1), (2, 0)] \<and>
   consumed_idx (sparse_user_item (projr (build_matrices example_data))) 0 = Inr [1] \<and>
   entry (sparse_user_item (projr (build_matrices example_data))) 0 0 = 0 \<and>
   entry (sparse_user_item (projr (build_matrices example_data))) 0 2 = 0"
proof -
  have a: "(0::nat) < length (user_factors example_model)"
    by (simp add: example_model_def)
  have c: "consumed_idx (sparse_user_item (projr (build_matrices example_data))) 0 = Inr [1]"
    by (simp add: consumed_idx_def nonzero_cols_def example_user_item_shape
        example_user_item_row0 upt_rec)
  from recommend_excludes_consumed[OF a, of "item_factors example_model"
      "sparse_user_item (projr (build_matrices example_data))" 5]
    example_recommend
  have "entry (sparse_user_item (projr (build_matrices example_data))) 0 0 = 0 \<and>
        entry (sparse_user_item (projr (build_matrices example_data))) 0 2 = 0"
    by simp
  with a c example_recommend show ?thesis by simp
qed

text \<open>
  C2: for an item \<open>x\<close> within the factor matrix and \<open>k \<ge> 1\<close>, \<^verbatim>\<open>similar_items\<close>
  returns a result whose first element is \<open>x\<close> itself with score 1, and no returned
  score is above 1.
\<close>

theorem similar_items_self:
  assumes "x < length Y" and "1 \<le> k"
  shows "\<exists>res. similar_items Y x k = Inr res \<and> res \<noteq> [] \<and> hd res = (x, 1) \<and>
           (\<forall>p \<in> set res. snd p \<le> 1)"
proof -
  from assms(2) obtain n where k: "k = Suc n" by (cases k) auto
  have "\<forall>p \<in> set (top_k n (other_scores Y x)). snd p \<le> 1"
    using set_top_k[of n "other_scores Y x"] other_scores_le_1[of _ Y x] by blast
  then show ?thesis
    unfolding k by (simp add: similar_items_Suc[OF assms(1)])
qed

theorem similar_items_self_witness:
  "(1::nat) < length (item_factors example_model) \<and> (1::nat) \<le> 1 \<and>
   item_factors example_model ! 0 = item_factors example_model ! 1 \<and>
   similar_items (item_factors example_model) 1 1 = Inr [(1, 1)]"
proof -
  have a: "(1::nat) < length (item_factors example_model)"
    by (simp add: example_model_def)
  have b: "item_factors example_model ! 0 = item_factors example_model ! 1"
    by (simp add: example_model_def)
  have e: "similar_items (item_factors example_model) 1 1 = Inr [(1, 1)]"
    by (simp add: example_model_def similar_items_def top_k_def)
  from similar_items_self[OF a, of 1] a b e show ?thesis by simp
qed




text \<open>
  C9: for an id within the factor matrix either query returns a result, a list of
  \<open>(item_id, score)\<close> pairs in descending score order of length at most \<open>k\<close>; when
  \<open>k\<close> is at least the number of candidates (all items for \<^verbatim>\<open>similar_items\<close>, the
  items the user has not read for \<^verbatim>\<open>recommend\<close>) the result holds exactly the
  candidates, each once.
\<close>

theorem results_bounded:
  "(x < length Y \<longrightarrow>
      (\<exists>res. similar_items Y x k = Inr res \<and>
         sorted_wrt (\<lambda>p q. snd q \<le> snd p) res \<and> length res \<le> k \<and>
         (length Y \<le> k \<longrightarrow> set res = set (similarity_scores Y x) \<and> length res = length Y))) \<and>
   (u < length X \<longrightarrow>
      (\<exists>res. recommend X Y M u k = Inr res \<and>
         sorted_wrt (\<lambda>p q. snd q \<le> snd p) res \<and> length res \<le> k \<and>
         (length (candidates Y M u) \<le> k \<longrightarrow>
            set res = set (preference_scores X Y M u) \<and> length res = length (candidates Y M u))))"
proof -
  have all: "set (top_k k xs) = set xs \<and> length (top_k k xs) = length xs"
    if "length xs \<le> k" for xs :: "(nat \<times> real) list"
    using that by (simp add: top_k_all)
  have lp: "length (preference_scores X Y M u) = length (candidates Y M u)"
    by (simp add: preference_scores_def)
  have r: "recommend X Y M u k = Inr (top_k k (preference_scores X Y M u))" if "u < length X"
    using that by (simp add: recommend_def)
  have rec: "u < length X \<longrightarrow>
      (\<exists>res. recommend X Y M u k = Inr res \<and>
         sorted_wrt (\<lambda>p q. snd q \<le> snd p) res \<and> length res \<le> k \<and>
         (length (candidates Y M u) \<le> k \<longrightarrow>
            set res = set (preference_scores X Y M u) \<and> length res = length (candidates Y M u)))"
    using r all[of "preference_scores X Y M u"] descending_top_k[of k] length_top_k[of k]
    by (simp add: lp)
  have sim: "\<exists>res. similar_items Y x k = Inr res \<and>
         sorted_wrt (\<lambda>p q. snd q \<le> snd p) res \<and> length res \<le> k \<and>
         (length Y \<le> k \<longrightarrow> set res = set (similarity_scores Y x) \<and> length res = length Y)"
    if x: "x < length Y"
  proof (cases k)
    case 0
    with x show ?thesis by (auto simp: similar_items_0)
  next
    case (Suc n)
    let ?xs = "other_scores Y x"
    have le1: "\<forall>p \<in> set (top_k n ?xs). snd p \<le> 1"
      using set_top_k[of n ?xs] other_scores_le_1[of _ Y x] by blast
    have d: "sorted_wrt (\<lambda>p q. snd q \<le> snd p) ((x, 1) # top_k n ?xs)"
      using le1 descending_top_k[of n ?xs] by simp
    have l: "length ((x, 1) # top_k n ?xs) \<le> k"
      by (simp add: Suc length_top_k)
    have f: "set ((x, 1) # top_k n ?xs) = set (similarity_scores Y x) \<and>
             length ((x, 1) # top_k n ?xs) = length Y" if "length Y \<le> k"
    proof -
      from that x have "length ?xs \<le> n" by (simp add: Suc length_other_scores)
      then have "top_k n ?xs = sort_key rank_key ?xs" by (rule top_k_all)
      then show ?thesis using x by (simp add: similarity_scores_def length_other_scores)
    qed
    from d l f show ?thesis by (simp add: Suc similar_items_Suc[OF x])
  qed
  from sim rec show ?thesis by blast
qed

theorem results_bounded_witness:
  "(2::nat) < length (item_factors example_model) \<and>
   length (item_factors example_model) \<le> 5 \<and>
   similar_items (item_factors example_model) 2 5 = Inr [(2, 1), (0, 0), (1, 0)] \<and>
   (0::nat) < length (user_factors example_model) \<and>
   candidates (item_factors example_model)
     (sparse_user_item (projr (build_matrices example_data))) 0 = [0, 2] \<and>
   recommend (user_factors example_model) (item_factors example_model)
     (sparse_user_item (projr (build_matrices example_data))) 0 5 = Inr [(0, 1), (2, 0)]"
proof -
  have a: "(2::nat) < length (item_factors example_model)"
    "length (item_factors example_model) \<le> 5" "(0::nat) < length (user_factors example_model)"
    by (simp_all add: example_model_def)
  have s: "similar_items (item_factors example_model) 2 5 = Inr [(2, 1), (0, 0), (1, 0)]"
    by (simp add: example_model_def similar_items_def other_scores_def top_k_def rank_key_def
        cosine_def normalize_vec_def norm_vec_def dot_def upt_rec)
  have c: "candidates (item_factors example_model)
     (sparse_user_item (projr (build_matrices example_data))) 0 = [0, 2]"
    by (simp add: example_model_def candidates_def example_user_item_row0 upt_rec)
  from results_bounded[of 2 "item_factors example_model" 5 0 "user_factors example_model"
      "sparse_user_item (projr (build_matrices example_data))"] a s c example_recommend
  have "length [(2::nat, 1::real), (0, 0), (1, 0)] \<le> 5 \<and> length [(0::nat, 1::real), (2, 0)] \<le> 5"
    by simp
  with a s c example_recommend show ?thesis by simp
qed

end
